theory Spec2Isabelle
  imports Complex_Main
begin

section \<open>Exceptions\<close>

text \<open>
  The Python code signals every failure with an exception. The model keeps the class of
  the exception and its message (what \<^verbatim>\<open>str(e)\<close> returns). \<open>ProviderError\<close> stands for
  any exception raised inside the OpenAI client (network failure, unparseable output).
\<close>

datatype exn = ValueError string | AttributeError string | ProviderError string

fun str_exn :: "exn \<Rightarrow> string" where
  "str_exn (ValueError m) = m"
| "str_exn (AttributeError m) = m"
| "str_exn (ProviderError m) = m"

section \<open>Embeddings: \<^verbatim>\<open>core/ai/embeddings.py\<close>\<close>

text \<open>
  Vectors are lists of numbers. Python floats are modelled by the reals, so rounding is
  not part of the model. \<^verbatim>\<open>np.dot\<close> of two one-dimensional arrays of different
  lengths raises \<^verbatim>\<open>ValueError\<close>; of two empty arrays it is 0.
\<close>

definition np_dot :: "real list \<Rightarrow> real list \<Rightarrow> real" where
  "np_dot v1 v2 = sum_list (map2 (*) v1 v2)"

definition linalg_norm :: "real list \<Rightarrow> real" where
  "linalg_norm v = sqrt (sum_list (map (\<lambda>x. x * x) v))"

definition cosine_similarity :: "real list \<Rightarrow> real list \<Rightarrow> exn + real" where
  "cosine_similarity vec1 vec2 =
     (if length vec1 \<noteq> length vec2 then Inl (ValueError ''shapes not aligned'')
      else let dot_product = np_dot vec1 vec2;
               norm_v1 = linalg_norm vec1;
               norm_v2 = linalg_norm vec2
           in if norm_v1 = 0 \<or> norm_v2 = 0 then Inr 0
              else Inr (dot_product / (norm_v1 * norm_v2)))"

text \<open>
  The embedder: its configured threshold (validated to lie in \<open>[0, 1]\<close>) and the
  embedding of a text. \<^verbatim>\<open>get_embedding\<close> is memoised in the source and the
  provider is taken to be deterministic, so it is a function of the text.
\<close>

record embedder =
  similarity_threshold :: real
  get_embedding :: "string \<Rightarrow> real list"

definition valid_embedder :: "embedder \<Rightarrow> bool" where
  "valid_embedder emb = (0 \<le> similarity_threshold emb \<and> similarity_threshold emb \<le> 1)"

definition are_embeddings_different :: "embedder \<Rightarrow> real list \<Rightarrow> real list \<Rightarrow> exn + bool" where
  "are_embeddings_different emb embedding1 embedding2 =
     (case cosine_similarity embedding1 embedding2 of
        Inl e \<Rightarrow> Inl e
      | Inr s \<Rightarrow> Inr (s < similarity_threshold emb))"

text \<open>
  \<^verbatim>\<open>all(... for other in list_embedding)\<close>: the generator is consumed from the left
  and \<^verbatim>\<open>all\<close> stops at the first false value; an exception raised by a comparison
  escapes.
\<close>

fun is_embedding_different_from_list :: "embedder \<Rightarrow> real list \<Rightarrow> real list list \<Rightarrow> exn + bool" where
  "is_embedding_different_from_list emb embedding [] = Inr True"
| "is_embedding_different_from_list emb embedding (other_embedding # rest) =
     (case are_embeddings_different emb embedding other_embedding of
        Inl e \<Rightarrow> Inl e
      | Inr False \<Rightarrow> Inr False
      | Inr True \<Rightarrow> is_embedding_different_from_list emb embedding rest)"


section \<open>Strings\<close>

text \<open>
  \<^verbatim>\<open>str.lower()\<close> on ASCII letters, and the decimal numeral of a natural number as
  an f-string formats it.
\<close>

definition lower_char :: "char \<Rightarrow> char" where
  "lower_char c =
     (case map_of (zip ''ABCDEFGHIJKLMNOPQRSTUVWXYZ'' ''abcdefghijklmnopqrstuvwxyz'') c of
        None \<Rightarrow> c
      | Some l \<Rightarrow> l)"

definition lower :: "string \<Rightarrow> string" where
  "lower s = map lower_char s"

definition digit_char :: "nat \<Rightarrow> char" where
  "digit_char d = ''0123456789'' ! d"

function str_nat :: "nat \<Rightarrow> string" where
  "str_nat k = (if k < 10 then [digit_char k] else str_nat (k div 10) @ [digit_char (k mod 10)])"
  by pat_completeness auto
termination
  by (relation "measure id") auto

declare str_nat.simps [simp del]

section \<open>Schemas: \<^verbatim>\<open>core/schemas.py\<close>\<close>

text \<open>
  Identifiers (\<^verbatim>\<open>UUID\<close>) are natural numbers. The fields \<^verbatim>\<open>id\<close>,
  \<^verbatim>\<open>request\<close>, \<^verbatim>\<open>created_at\<close> and \<^verbatim>\<open>app_version\<close> exist in both stored
  classes, so they carry the prefix of their record.
\<close>

type_synonym uuid = nat

datatype question_type = Exercise | KnowledgeQuestion

datatype job_title = DataAnalyst | DataScientist | DataEngineer

record QuestionGenerationRequest =
  user_id :: uuid
  req_question_type :: question_type
  req_job_title :: job_title
  skill_to_test :: string
  req_n :: nat

record QuestionContent =
  question :: string
  expected_answer :: string
  evaluation_criteria :: string
  expected_duration :: string

record GeneratedQuestion = QuestionContent +
  gq_created_at :: nat
  gq_app_version :: string
  gq_id :: uuid
  gq_request :: QuestionGenerationRequest

record TipGenerationRequest =
  question_id :: uuid

record TipContent =
  tip :: string

record GeneratedTip = TipContent +
  gt_created_at :: nat
  gt_app_version :: string
  gt_id :: uuid
  gt_request :: TipGenerationRequest

section \<open>The external collaborators and the mutable state\<close>

text \<open>
  What the chat completion returns: \<^verbatim>\<open>message.refusal\<close> and \<^verbatim>\<open>message.parsed\<close>,
  each of which may be \<^verbatim>\<open>None\<close>. A streamed completion is the list of its chunks
  (\<^verbatim>\<open>delta.content\<close>, which may be \<^verbatim>\<open>None\<close> or empty) and, when the connection
  breaks after them, the exception raised at that point.
\<close>

record 'a chat_message =
  refusal :: "string option"
  parsed :: "'a option"

record chat_stream =
  chunks :: "string option list"
  failure :: "exn option"

text \<open>
  The environment of a call: the language-model provider, the identifier source and the
  clock. The provider answers the \<open>k\<close>-th request of the process; its answer may depend
  on everything the prompt is built from (the request and the previous texts), so the
  prompt text itself is not modelled. \<^verbatim>\<open>_parse_response\<close> is a total function of the
  streamed text and is taken as a parameter.
\<close>

record env =
  chat_parse_question ::
    "nat \<Rightarrow> QuestionGenerationRequest \<Rightarrow> string list \<Rightarrow> exn + QuestionContent chat_message"
  chat_parse_tip ::
    "nat \<Rightarrow> GeneratedQuestion \<Rightarrow> string list \<Rightarrow> exn + TipContent chat_message"
  chat_stream_question ::
    "nat \<Rightarrow> QuestionGenerationRequest \<Rightarrow> string list \<Rightarrow> exn + chat_stream"
  chat_stream_tip ::
    "nat \<Rightarrow> GeneratedQuestion \<Rightarrow> string list \<Rightarrow> exn + chat_stream"
  parse_response :: "string \<Rightarrow> QuestionContent"
  uuid1 :: "nat \<Rightarrow> uuid"
  now :: nat

text \<open>
  The state a call reads and writes: how many completions and identifiers have been
  requested, the four families of keys of the store (\<^verbatim>\<open>question:{id}\<close>,
  \<^verbatim>\<open>user:{id}:questions\<close>, \<^verbatim>\<open>tip:{id}\<close>, \<^verbatim>\<open>question:{id}:tips\<close>), and the two
  private attributes of the streaming generators. A Redis set is kept as a list without
  duplicates, in insertion order. Expiration is not modelled: no time passes inside a
  call.
\<close>

record world =
  llm_calls :: nat
  uuid_calls :: nat
  question_hashes :: "uuid \<rightharpoonup> GeneratedQuestion"
  user_questions :: "uuid \<Rightarrow> uuid list"
  tip_hashes :: "uuid \<rightharpoonup> GeneratedTip"
  question_tips :: "uuid \<Rightarrow> uuid list"
  current_tip :: string
  current_question :: "QuestionContent option"

section \<open>Storage: \<^verbatim>\<open>storage/storage.py\<close>\<close>

definition sadd :: "uuid list \<Rightarrow> uuid \<Rightarrow> uuid list" where
  "sadd members x = (if x \<in> set members then members else members @ [x])"

text \<open>
  \<^verbatim>\<open>add_question\<close> draws the identifier, fails when its key exists, and only then
  reads the content (\<^verbatim>\<open>model_dump\<close> of \<^verbatim>\<open>None\<close> raises \<^verbatim>\<open>AttributeError\<close>) and
  writes the hash and the index in one pipeline.
\<close>

definition add_question ::
  "env \<Rightarrow> QuestionGenerationRequest \<Rightarrow> QuestionContent option \<Rightarrow> world
     \<Rightarrow> (exn + GeneratedQuestion) \<times> world" where
  "add_question ev request question_content w =
     (let question_id = uuid1 ev (uuid_calls w);
          w1 = w\<lparr>uuid_calls := Suc (uuid_calls w)\<rparr>
      in if question_hashes w1 question_id \<noteq> None
         then (Inl (ValueError (''Question with ID '' @ str_nat question_id @ '' already exists.'')), w1)
         else (case question_content of
                 None \<Rightarrow> (Inl (AttributeError ''NoneType object has no attribute model_dump''), w1)
               | Some c \<Rightarrow>
                   (let generated = \<lparr>question = question c,
                                     expected_answer = expected_answer c,
                                     evaluation_criteria = evaluation_criteria c,
                                     expected_duration = expected_duration c,
                                     gq_created_at = now ev,
                                     gq_app_version = ''0.1.0'',
                                     gq_id = question_id,
                                     gq_request = request\<rparr>
                    in (Inr generated,
                        w1\<lparr>question_hashes := (question_hashes w1)(question_id \<mapsto> generated),
                           user_questions := (user_questions w1)
                             (user_id request := sadd (user_questions w1 (user_id request)) question_id)\<rparr>))))"

definition get_question :: "world \<Rightarrow> uuid \<Rightarrow> GeneratedQuestion option" where
  "get_question w qid = question_hashes w qid"

definition list_questions_by_user :: "world \<Rightarrow> uuid \<Rightarrow> GeneratedQuestion list" where
  "list_questions_by_user w uid = List.map_filter (get_question w) (user_questions w uid)"

definition add_tip ::
  "env \<Rightarrow> TipGenerationRequest \<Rightarrow> TipContent option \<Rightarrow> world \<Rightarrow> (exn + GeneratedTip) \<times> world" where
  "add_tip ev request tip_content w =
     (let tip_id = uuid1 ev (uuid_calls w);
          w1 = w\<lparr>uuid_calls := Suc (uuid_calls w)\<rparr>
      in if tip_hashes w1 tip_id \<noteq> None
         then (Inl (ValueError (''Tip with ID '' @ str_nat tip_id @ '' already exists.'')), w1)
         else (case tip_content of
                 None \<Rightarrow> (Inl (AttributeError ''NoneType object has no attribute model_dump''), w1)
               | Some c \<Rightarrow>
                   (let generated = \<lparr>tip = tip c,
                                     gt_created_at = now ev,
                                     gt_app_version = ''0.1.0'',
                                     gt_id = tip_id,
                                     gt_request = request\<rparr>
                    in (Inr generated,
                        w1\<lparr>tip_hashes := (tip_hashes w1)(tip_id \<mapsto> generated),
                           question_tips := (question_tips w1)
                             (question_id request := sadd (question_tips w1 (question_id request)) tip_id)\<rparr>))))"



section \<open>Retry: \<^verbatim>\<open>core/utils/retry.py\<close>\<close>

record retry_strategy =
  max_attempts :: nat
  should_retry :: "exn \<Rightarrow> bool"
  error_message :: string

definition str_last_exception :: "exn option \<Rightarrow> string" where
  "str_last_exception last_exception =
     (case last_exception of None \<Rightarrow> ''None'' | Some e \<Rightarrow> str_exn e)"

definition exhausted_message :: "retry_strategy \<Rightarrow> string \<Rightarrow> exn option \<Rightarrow> string" where
  "exhausted_message rs name last_exception =
     ''Function '' @ [CHR 0x27] @ name @ [CHR 0x27] @ '' '' @ lower (error_message rs)
       @ '' after '' @ str_nat (max_attempts rs) @ '' attempts. Last error: ''
       @ str_last_exception last_exception"

text \<open>
  \<^verbatim>\<open>RetryStrategy.execute\<close>. The operation reads and writes the state. The third
  argument of the loop is the number of iterations of \<^verbatim>\<open>range(max_attempts)\<close> still
  to run; leaving the loop, by its end or by \<^verbatim>\<open>break\<close>, raises the \<^verbatim>\<open>ValueError\<close>.
\<close>

fun execute_loop ::
  "retry_strategy \<Rightarrow> string \<Rightarrow> ('s \<Rightarrow> (exn + 'a) \<times> 's) \<Rightarrow> nat \<Rightarrow> exn option \<Rightarrow> 's
     \<Rightarrow> (exn + 'a) \<times> 's" where
  "execute_loop rs name operation 0 last_exception w =
     (Inl (ValueError (exhausted_message rs name last_exception)), w)"
| "execute_loop rs name operation (Suc k) last_exception w =
     (case operation w of
        (Inr result, w') \<Rightarrow> (Inr result, w')
      | (Inl e, w') \<Rightarrow>
          if \<not> should_retry rs e
          then (Inl (ValueError (exhausted_message rs name (Some e))), w')
          else execute_loop rs name operation k (Some e) w')"

definition execute ::
  "retry_strategy \<Rightarrow> string \<Rightarrow> ('s \<Rightarrow> (exn + 'a) \<times> 's) \<Rightarrow> 's \<Rightarrow> (exn + 'a) \<times> 's" where
  "execute rs name operation w = execute_loop rs name operation (max_attempts rs) None w"

section \<open>Content generators: \<^verbatim>\<open>core/ai/content_generation\<close>\<close>

text \<open>
  \<^verbatim>\<open>OpenAIQuestionContentGenerator.generate_question_content\<close> wraps every exception
  of the provider call in a \<^verbatim>\<open>ValueError\<close> and returns \<^verbatim>\<open>message.parsed\<close> as it
  is; it does not look at \<^verbatim>\<open>message.refusal\<close>.
\<close>

definition generate_question_content ::
  "env \<Rightarrow> QuestionGenerationRequest \<Rightarrow> string list \<Rightarrow> world
     \<Rightarrow> (exn + QuestionContent option) \<times> world" where
  "generate_question_content ev request previous_questions w =
     (let w' = w\<lparr>llm_calls := Suc (llm_calls w)\<rparr>
      in case chat_parse_question ev (llm_calls w) request previous_questions of
           Inl e \<Rightarrow> (Inl (ValueError (''Failed to generate question content: '' @ str_exn e)), w')
         | Inr generated_text \<Rightarrow> (Inr (parsed generated_text), w'))"


section \<open>Services: \<^verbatim>\<open>core/services.py\<close>\<close>

record service =
  svc_embedder :: embedder
  svc_retry_strategy :: retry_strategy

text \<open>
  The closure \<^verbatim>\<open>generate_and_validate\<close> of \<^verbatim>\<open>_generate_unique_question\<close>: one
  attempt. Reading \<^verbatim>\<open>candidate.question\<close> of \<^verbatim>\<open>None\<close> raises \<^verbatim>\<open>AttributeError\<close>.
\<close>

definition question_generate_and_validate ::
  "env \<Rightarrow> service \<Rightarrow> QuestionGenerationRequest \<Rightarrow> string list \<Rightarrow> real list list \<Rightarrow> world
     \<Rightarrow> (exn + QuestionContent option) \<times> world" where
  "question_generate_and_validate ev svc request previous_questions_text stored_embeddings w =
     (if stored_embeddings = [] then generate_question_content ev request [] w
      else (case generate_question_content ev request previous_questions_text w of
              (Inl e, w') \<Rightarrow> (Inl e, w')
            | (Inr None, w') \<Rightarrow>
                (Inl (AttributeError ''NoneType object has no attribute question''), w')
            | (Inr (Some candidate), w') \<Rightarrow>
                (case is_embedding_different_from_list (svc_embedder svc)
                        (get_embedding (svc_embedder svc) (question candidate)) stored_embeddings of
                   Inl e \<Rightarrow> (Inl e, w')
                 | Inr False \<Rightarrow>
                     (Inl (ValueError ''Generated question is too similar to existing ones''), w')
                 | Inr True \<Rightarrow> (Inr (Some candidate), w'))))"

definition generate_unique_question ::
  "env \<Rightarrow> service \<Rightarrow> QuestionGenerationRequest \<Rightarrow> string list \<Rightarrow> real list list \<Rightarrow> world
     \<Rightarrow> (exn + QuestionContent option) \<times> world" where
  "generate_unique_question ev svc request previous_questions_text stored_embeddings w =
     execute (svc_retry_strategy svc) ''generate_and_validate''
       (question_generate_and_validate ev svc request previous_questions_text stored_embeddings) w"

text \<open>
  The loop \<^verbatim>\<open>for _ in range(request.n)\<close> of \<^verbatim>\<open>generate_questions\<close>, with the three
  lists it appends to. The count is an argument of its own, so that a run for fewer items
  can be compared with a run for more.
\<close>

fun generate_questions_loop ::
  "env \<Rightarrow> service \<Rightarrow> QuestionGenerationRequest \<Rightarrow> nat \<Rightarrow> string list \<Rightarrow> real list list
     \<Rightarrow> GeneratedQuestion list \<Rightarrow> world \<Rightarrow> (exn + GeneratedQuestion list) \<times> world" where
  "generate_questions_loop ev svc request 0 previous_questions_text stored_embeddings
       generated_questions w = (Inr generated_questions, w)"
| "generate_questions_loop ev svc request (Suc k) previous_questions_text stored_embeddings
       generated_questions w =
     (case generate_unique_question ev svc request previous_questions_text stored_embeddings w of
        (Inl e, w1) \<Rightarrow> (Inl e, w1)
      | (Inr candidate_content, w1) \<Rightarrow>
          (case add_question ev request candidate_content w1 of
             (Inl e, w2) \<Rightarrow> (Inl e, w2)
           | (Inr generated_question, w2) \<Rightarrow>
               generate_questions_loop ev svc request k
                 (previous_questions_text @ [question generated_question])
                 (stored_embeddings
                    @ [get_embedding (svc_embedder svc) (question generated_question)])
                 (generated_questions @ [generated_question]) w2))"

definition generate_questions_for ::
  "env \<Rightarrow> service \<Rightarrow> QuestionGenerationRequest \<Rightarrow> nat \<Rightarrow> world
     \<Rightarrow> (exn + GeneratedQuestion list) \<times> world" where
  "generate_questions_for ev svc request count w =
     (let stored_questions = list_questions_by_user w (user_id request);
          stored_embeddings = map (\<lambda>q. get_embedding (svc_embedder svc) (question q)) stored_questions;
          previous_questions_text = map question stored_questions
      in generate_questions_loop ev svc request count previous_questions_text stored_embeddings [] w)"

definition generate_questions ::
  "env \<Rightarrow> service \<Rightarrow> QuestionGenerationRequest \<Rightarrow> world
     \<Rightarrow> (exn + GeneratedQuestion list) \<times> world" where
  "generate_questions ev svc request w = generate_questions_for ev svc request (req_n request) w"





section \<open>Streaming generators\<close>

text \<open>
  The loop over the chunks of a streamed completion, the same in both generators: a chunk
  whose content is \<^verbatim>\<open>None\<close> or empty is skipped, any other content is appended to the
  buffer and yielded. The result is the list of fragments yielded and the buffer at the
  end.
\<close>

fun accumulate :: "string option list \<Rightarrow> string \<Rightarrow> string list \<times> string" where
  "accumulate [] buffer = ([], buffer)"
| "accumulate (None # cs) buffer = accumulate cs buffer"
| "accumulate (Some content # cs) buffer =
     (if content = [] then accumulate cs buffer
      else (case accumulate cs (buffer @ content) of (ys, b) \<Rightarrow> (content # ys, b)))"


text \<open>
  \<^verbatim>\<open>generate_tip_content_stream\<close>, iterated to its end: the fragments yielded, the
  exception raised if any, and the state. The body of the method is the same in
  \<^verbatim>\<open>OpenAITipContentGenerator\<close> and \<^verbatim>\<open>AsyncOpenAITipContentGenerator\<close>.
\<close>

definition generate_tip_content_stream ::
  "env \<Rightarrow> GeneratedQuestion \<Rightarrow> string list \<Rightarrow> world \<Rightarrow> string list \<times> exn option \<times> world" where
  "generate_tip_content_stream ev generated_question previous_tips w =
     (let w1 = w\<lparr>current_tip := [], llm_calls := Suc (llm_calls w)\<rparr>
      in case chat_stream_tip ev (llm_calls w) generated_question previous_tips of
           Inl e \<Rightarrow> ([], Some e, w1)
         | Inr stream \<Rightarrow>
             (case accumulate (chunks stream) (current_tip w1) of
                (fragments, buffer) \<Rightarrow> (fragments, failure stream, w1\<lparr>current_tip := buffer\<rparr>)))"


definition get_complete_tip :: "world \<Rightarrow> exn + TipContent" where
  "get_complete_tip w = Inr \<lparr>tip = current_tip w\<rparr>"

text \<open>
  \<^verbatim>\<open>generate_question_content_stream\<close> accumulates in a local variable and sets
  \<^verbatim>\<open>_current_question\<close> only after the last chunk.
\<close>

definition generate_question_content_stream ::
  "env \<Rightarrow> QuestionGenerationRequest \<Rightarrow> string list \<Rightarrow> world
     \<Rightarrow> string list \<times> exn option \<times> world" where
  "generate_question_content_stream ev request previous_questions w =
     (let w1 = w\<lparr>current_question := None, llm_calls := Suc (llm_calls w)\<rparr>
      in case chat_stream_question ev (llm_calls w) request previous_questions of
           Inl e \<Rightarrow> ([], Some e, w1)
         | Inr stream \<Rightarrow>
             (case accumulate (chunks stream) [] of
                (fragments, current_text) \<Rightarrow>
                  (case failure stream of
                     Some e \<Rightarrow> (fragments, Some e, w1)
                   | None \<Rightarrow>
                       (fragments, None,
                        w1\<lparr>current_question := Some (parse_response ev current_text)\<rparr>))))"


definition get_complete_question :: "world \<Rightarrow> exn + QuestionContent" where
  "get_complete_question w =
     (case current_question w of
        None \<Rightarrow> Inl (ValueError ''No question has been generated yet'')
      | Some q \<Rightarrow> Inr q)"

section \<open>Streaming services\<close>

text \<open>
  What a streaming service yields: text fragments, then the stored item.
\<close>

datatype 'a stream_item = Fragment string | Final 'a

text \<open>
  The block \<^verbatim>\<open>if stored_embeddings: ... raise ValueError(...)\<close> of the streaming
  services: the exception it raises, if any.
\<close>

definition validate_candidate ::
  "embedder \<Rightarrow> string \<Rightarrow> real list list \<Rightarrow> string \<Rightarrow> exn option" where
  "validate_candidate emb text stored_embeddings too_similar =
     (if stored_embeddings \<noteq> []
      then (case is_embedding_different_from_list emb (get_embedding emb text) stored_embeddings of
              Inl e \<Rightarrow> Some e
            | Inr False \<Rightarrow> Some (ValueError too_similar)
            | Inr True \<Rightarrow> None)
      else None)"

text \<open>The body of the \<^verbatim>\<open>try\<close> of \<^verbatim>\<open>generate_tip_stream\<close>: one attempt.\<close>

definition tip_stream_attempt ::
  "env \<Rightarrow> service \<Rightarrow> GeneratedQuestion \<Rightarrow> TipGenerationRequest \<Rightarrow> string list \<Rightarrow> real list list
     \<Rightarrow> world \<Rightarrow> GeneratedTip stream_item list \<times> (exn + GeneratedTip) \<times> world" where
  "tip_stream_attempt ev svc generated_question tip_request previous_tips_text stored_embeddings w =
     (case generate_tip_content_stream ev generated_question previous_tips_text w of
        (fragments, Some e, w1) \<Rightarrow> (map Fragment fragments, Inl e, w1)
      | (fragments, None, w1) \<Rightarrow>
          (case get_complete_tip w1 of
             Inl e \<Rightarrow> (map Fragment fragments, Inl e, w1)
           | Inr complete_tip \<Rightarrow>
               (case validate_candidate (svc_embedder svc) (tip complete_tip) stored_embeddings
                       ''Generated tip is too similar to existing ones'' of
                  Some e \<Rightarrow> (map Fragment fragments, Inl e, w1)
                | None \<Rightarrow>
                    (case add_tip ev tip_request (Some complete_tip) w1 of
                       (Inl e, w2) \<Rightarrow> (map Fragment fragments, Inl e, w2)
                     | (Inr stored_tip, w2) \<Rightarrow>
                         (map Fragment fragments @ [Final stored_tip], Inr stored_tip, w2)))))"

definition question_stream_attempt ::
  "env \<Rightarrow> service \<Rightarrow> QuestionGenerationRequest \<Rightarrow> string list \<Rightarrow> real list list
     \<Rightarrow> world \<Rightarrow> GeneratedQuestion stream_item list \<times> (exn + GeneratedQuestion) \<times> world" where
  "question_stream_attempt ev svc request previous_questions_text stored_embeddings w =
     (case generate_question_content_stream ev request previous_questions_text w of
        (fragments, Some e, w1) \<Rightarrow> (map Fragment fragments, Inl e, w1)
      | (fragments, None, w1) \<Rightarrow>
          (case get_complete_question w1 of
             Inl e \<Rightarrow> (map Fragment fragments, Inl e, w1)
           | Inr complete_question \<Rightarrow>
               (case validate_candidate (svc_embedder svc) (question complete_question)
                       stored_embeddings ''Generated question is too similar to existing ones'' of
                  Some e \<Rightarrow> (map Fragment fragments, Inl e, w1)
                | None \<Rightarrow>
                    (case add_question ev request (Some complete_question) w1 of
                       (Inl e, w2) \<Rightarrow> (map Fragment fragments, Inl e, w2)
                     | (Inr stored_question, w2) \<Rightarrow>
                         (map Fragment fragments @ [Final stored_question],
                          Inr stored_question, w2)))))"

text \<open>
  The loop \<^verbatim>\<open>while attempt < max_attempts: try ... except Exception\<close>, written three
  times in the source with the same text (\<^verbatim>\<open>TipService\<close>, \<^verbatim>\<open>AsyncTipService\<close>,
  \<^verbatim>\<open>AsyncQuestionService\<close>). The result is everything yielded to a consumer that
  iterates to the end, the exception re-raised by the bare \<^verbatim>\<open>raise\<close> if any, and
  the state.
\<close>

function stream_retry_loop ::
  "retry_strategy \<Rightarrow> ('s \<Rightarrow> 'o list \<times> (exn + 'a) \<times> 's) \<Rightarrow> nat \<Rightarrow> 's
     \<Rightarrow> 'o list \<times> exn option \<times> 's" where
  "stream_retry_loop rs attempt_body attempt w =
     (if attempt < max_attempts rs
      then (case attempt_body w of
              (out, Inr stored, w') \<Rightarrow> (out, None, w')
            | (out, Inl e, w') \<Rightarrow>
                if Suc attempt \<ge> max_attempts rs \<or> \<not> should_retry rs e
                then (out, Some e, w')
                else (case stream_retry_loop rs attempt_body (Suc attempt) w' of
                        (out2, r, w'') \<Rightarrow> (out @ out2, r, w'')))
      else ([], None, w))"
  by pat_completeness auto
termination
  by (relation "measure (\<lambda>(rs, attempt_body, attempt, w). max_attempts rs - attempt)") auto

declare stream_retry_loop.simps [simp del]


definition generate_question_stream ::
  "env \<Rightarrow> service \<Rightarrow> QuestionGenerationRequest \<Rightarrow> world
     \<Rightarrow> GeneratedQuestion stream_item list \<times> exn option \<times> world" where
  "generate_question_stream ev svc request w =
     (let stored_questions = list_questions_by_user w (user_id request);
          stored_embeddings =
            map (\<lambda>q. get_embedding (svc_embedder svc) (question q)) stored_questions;
          previous_questions_text = map question stored_questions
      in stream_retry_loop (svc_retry_strategy svc)
           (question_stream_attempt ev svc request previous_questions_text stored_embeddings) 0 w)"

section \<open>Scenarios\<close>

text \<open>
  Concrete environments and states on which the theorems below are exercised. In
  \<open>stream_env\<close> every streamed completion has two skipped chunks between its two
  fragments; in \<open>stale_world\<close> one question is stored and the tip buffer still holds
  the text of an earlier stream.
\<close>

definition request0 :: QuestionGenerationRequest where
  "request0 = \<lparr>user_id = 1, req_question_type = Exercise, req_job_title = DataAnalyst,
                skill_to_test = ''SQL'', req_n = 3\<rparr>"

definition question0 :: GeneratedQuestion where
  "question0 = \<lparr>question = ''What is a join?'', expected_answer = ''A combination of tables'',
                 evaluation_criteria = ''clarity'', expected_duration = ''5 minutes'',
                 gq_created_at = 0, gq_app_version = ''0.1.0'', gq_id = 7, gq_request = request0\<rparr>"

definition stream_env :: env where
  "stream_env =
     \<lparr>chat_parse_question = (\<lambda>k request previous. Inl (ProviderError ''unused'')),
      chat_parse_tip = (\<lambda>k generated_question previous. Inl (ProviderError ''unused'')),
      chat_stream_question = (\<lambda>k request previous.
         Inr \<lparr>chunks = [Some ''Question: '', None, Some '''', Some ''What is SQL?''],
              failure = None\<rparr>),
      chat_stream_tip = (\<lambda>k generated_question previous.
         Inr \<lparr>chunks = [Some ''Use '', None, Some '''', Some ''indexes''], failure = None\<rparr>),
      parse_response = (\<lambda>text. \<lparr>question = text, expected_answer = '''',
                                  evaluation_criteria = '''', expected_duration = ''''\<rparr>),
      uuid1 = (\<lambda>k. 100 + k),
      now = 0\<rparr>"

definition stale_world :: world where
  "stale_world =
     \<lparr>llm_calls = 0, uuid_calls = 0,
      question_hashes = [7 \<mapsto> question0],
      user_questions = (\<lambda>u. if u = 1 then [7] else []),
      tip_hashes = Map.empty,
      question_tips = (\<lambda>q. []),
      current_tip = ''stale text'',
      current_question = None\<rparr>"






text \<open>
  A provider that refuses the first request and answers every later one, and an
  identifier source whose first identifier is 100, the one of the stored tip.
\<close>

definition tip_answer :: "nat \<Rightarrow> TipContent chat_message" where
  "tip_answer k =
     \<lparr>refusal = None,
      parsed = Some \<lparr>tip = (if k = 0 then ''Think about keys'' else ''Think about nulls'')\<rparr>\<rparr>"

definition refuse_once_env :: env where
  "refuse_once_env =
     \<lparr>chat_parse_question = (\<lambda>k request previous. Inl (ProviderError ''unused'')),
      chat_parse_tip = (\<lambda>k generated_question previous.
         if k = 0 then Inr \<lparr>refusal = Some ''I cannot help with that'', parsed = None\<rparr>
         else Inr (tip_answer k)),
      chat_stream_question = (\<lambda>k request previous. Inl (ProviderError ''unused'')),
      chat_stream_tip = (\<lambda>k generated_question previous. Inl (ProviderError ''unused'')),
      parse_response = (\<lambda>text. \<lparr>question = text, expected_answer = '''',
                                  evaluation_criteria = '''', expected_duration = ''''\<rparr>),
      uuid1 = (\<lambda>k. 200 + k),
      now = 0\<rparr>"

definition collision_env :: env where
  "collision_env =
     \<lparr>chat_parse_question = (\<lambda>k request previous. Inl (ProviderError ''unused'')),
      chat_parse_tip = (\<lambda>k generated_question previous. Inr (tip_answer k)),
      chat_stream_question = (\<lambda>k request previous. Inl (ProviderError ''unused'')),
      chat_stream_tip = (\<lambda>k generated_question previous. Inl (ProviderError ''unused'')),
      parse_response = (\<lambda>text. \<lparr>question = text, expected_answer = '''',
                                  evaluation_criteria = '''', expected_duration = ''''\<rparr>),
      uuid1 = (\<lambda>k. 100 + k),
      now = 0\<rparr>"

section \<open>Vocabulary of the statements\<close>


section \<open>Properties of the similarity check\<close>


lemma cosine_similarity_commute:
  "cosine_similarity a b = cosine_similarity b a"
proof -
  have "map2 (*) a b = map2 (*) b a" if "length a = length b"
    using that by (induction a b rule: list_induct2) (auto simp: mult.commute)
  then have "length a = length b \<Longrightarrow> np_dot a b = np_dot b a"
    by (simp add: np_dot_def)
  then show ?thesis
    by (auto simp: cosine_similarity_def Let_def mult.commute)
qed



text \<open>
  Claim C7, as the code has it. When one of two vectors of one dimension has norm zero the
  similarity is 0, and the pair is reported "different" exactly when the threshold is
  positive. The threshold 0 is a valid configuration, and there the pair is reported
  "not different".
\<close>

theorem zero_norm_threshold_zero_counterexample:
  "valid_embedder \<lparr>similarity_threshold = 0, get_embedding = (\<lambda>t. [])\<rparr> \<and>
   linalg_norm [0] = 0 \<and>
   are_embeddings_different \<lparr>similarity_threshold = 0, get_embedding = (\<lambda>t. [])\<rparr> [0] [1]
     = Inr False"
  by (simp add: valid_embedder_def are_embeddings_different_def cosine_similarity_def
      linalg_norm_def np_dot_def)

theorem zero_norm_similarity:
  "length e1 = length e2 \<Longrightarrow> linalg_norm e1 = 0 \<or> linalg_norm e2 = 0 \<Longrightarrow>
     cosine_similarity e1 e2 = Inr 0 \<and>
     are_embeddings_different emb e1 e2 = Inr (0 < similarity_threshold emb)"
  by (auto simp: are_embeddings_different_def cosine_similarity_def Let_def)

theorem zero_norm_similarity_witness:
  "length [0, 0 :: real] = length [1, 2 :: real] \<and>
   (linalg_norm [0, 0] = 0 \<or> linalg_norm [1, 2] = 0) \<and>
   cosine_similarity [0, 0] [1, 2] = Inr 0 \<and>
   are_embeddings_different \<lparr>similarity_threshold = 4 / 5, get_embedding = (\<lambda>t. [])\<rparr> [0, 0] [1, 2]
     = Inr True"
proof -
  have len: "length [0, 0 :: real] = length [1, 2 :: real]" by simp
  have z: "linalg_norm [0, 0] = 0 \<or> linalg_norm [1, 2] = 0"
    by (simp add: linalg_norm_def)
  show ?thesis
    using len z zero_norm_similarity [OF len z,
        of "\<lparr>similarity_threshold = 4 / 5, get_embedding = (\<lambda>t. [])\<rparr>"]
    by simp
qed




section \<open>Streaming generators: the buffer and the terminal accessors\<close>

lemma accumulate_buffer: "accumulate cs buffer = (ys, b) \<Longrightarrow> b = buffer @ concat ys"
proof (induction cs buffer arbitrary: ys b rule: accumulate.induct)
  case (1 buffer)
  then show ?case by simp
next
  case (2 cs buffer)
  then show ?case by simp
next
  case (3 content cs buffer)
  then show ?case by (auto split: if_splits prod.splits)
qed


lemma generate_tip_content_stream_buffer:
  "generate_tip_content_stream ev generated_question previous_tips w = (fragments, r, w1) \<Longrightarrow>
     current_tip w1 = concat fragments"
  by (auto simp: generate_tip_content_stream_def Let_def
      split: sum.splits prod.splits dest: accumulate_buffer)

text \<open>
  Claim C10. Whatever the buffer held before, a run of the streaming tip generator leaves
  in it exactly the concatenation of the fragments it yielded, and that is the text the
  terminal accessor returns. An attempt of the streaming service that ends with a stored
  tip has yielded those fragments followed by the stored tip, whose text is their
  concatenation: nothing of an earlier attempt is carried over.
\<close>

theorem tip_stream_text_is_final_attempt:
  assumes "generate_tip_content_stream ev generated_question previous_tips w = (fragments, r, w1)"
  shows "current_tip w1 = concat fragments \<and>
         get_complete_tip w1 = Inr \<lparr>tip = concat fragments\<rparr> \<and>
         (\<forall>svc tip_request stored_embeddings out stored_tip w2.
            tip_stream_attempt ev svc generated_question tip_request previous_tips
              stored_embeddings w = (out, Inr stored_tip, w2) \<longrightarrow>
            out = map Fragment fragments @ [Final stored_tip] \<and> tip stored_tip = concat fragments)"
proof -
  have buf: "current_tip w1 = concat fragments"
    using assms by (rule generate_tip_content_stream_buffer)
  have acc: "get_complete_tip w1 = Inr \<lparr>tip = concat fragments\<rparr>"
    using buf by (simp add: get_complete_tip_def)
  have att: "out = map Fragment fragments @ [Final stored_tip] \<and> tip stored_tip = concat fragments"
    if "tip_stream_attempt ev svc generated_question tip_request previous_tips
          stored_embeddings w = (out, Inr stored_tip, w2)"
    for svc tip_request stored_embeddings out stored_tip w2
    using that assms buf
    by (auto simp: tip_stream_attempt_def get_complete_tip_def add_tip_def Let_def
        split: option.splits sum.splits prod.splits if_splits)
  from buf acc att show ?thesis by blast
qed

theorem tip_stream_text_is_final_attempt_witness:
  "generate_tip_content_stream stream_env question0 [] stale_world
     = ([''Use '', ''indexes''], None, stale_world\<lparr>current_tip := ''Use indexes'', llm_calls := 1\<rparr>) \<and>
   current_tip stale_world = ''stale text'' \<and>
   get_complete_tip (stale_world\<lparr>current_tip := ''Use indexes'', llm_calls := 1\<rparr>)
     = Inr \<lparr>tip = ''Use indexes''\<rparr>"
proof -
  have run: "generate_tip_content_stream stream_env question0 [] stale_world
     = ([''Use '', ''indexes''], None, stale_world\<lparr>current_tip := ''Use indexes'', llm_calls := 1\<rparr>)"
    by (simp add: generate_tip_content_stream_def stream_env_def stale_world_def Let_def)
  have old: "current_tip stale_world = ''stale text''"
    by (simp add: stale_world_def)
  from tip_stream_text_is_final_attempt [OF run] run old show ?thesis by simp
qed




section \<open>The retry loops when every attempt fails\<close>














end
